theory Spec2Isabelle
  imports Complex_Main "HOL-Library.Word" "HOL-Library.Sublist"
begin

section \<open>Data model of the client SDK (types.ts, vad.ts)\<close>

text \<open>
  The voice-activity pipeline is the class \<open>VADManager\<close>. Its fields hold handles of
  the host (browser) audio layer. A handle is modelled by what the code does with it: a
  media stream by the tracks \<open>getTracks()\<close> returns, an audio context by an identifier,
  an analyser node by the two properties the code writes, the classifier instance by
  the aggressiveness it was constructed with.
\<close>

type_synonym byte = "8 word"
type_synonym int16 = "16 word"

text \<open>
  Anything thrown. \<open>SolaceSDKError\<close> is the class of types.ts (message, code, details);
  every other thrown value is a host error, named by a string.
\<close>

datatype js_error =
    HostError string
  | SolaceSDKError (message: string) (code: string) (details: js_error)

text \<open>
  \<open>VADConfig\<close>. The TypeScript type restricts the fields to literal unions; at run time
  they are plain numbers, and the model keeps them as numbers.
\<close>

record VADConfig =
  aggressiveness :: int
  frameDuration :: int
  sampleRate :: int

record VADFrame =
  frame :: "int16 list"
  timestamp :: int
  hasVoice :: bool

datatype MediaStream = MediaStream (getTracks: "nat list")

record AnalyserNode =
  fftSize :: nat
  smoothingTimeConstant :: real

datatype WebRTCVAD = WebRTCVAD int

record VADManager =
  mediaStream :: "MediaStream option"
  mediaRecorder :: "nat option"
  audioContext :: "nat option"
  analyser :: "AnalyserNode option"
  vad :: "WebRTCVAD option"
  isRecording :: bool
  frameQueue :: "VADFrame list"
  config :: VADConfig
  startTime :: int

text \<open>
  The release calls the code makes on the host, in the order it makes them:
  \<open>track.stop()\<close> on a track and \<open>close()\<close> on an audio context.
\<close>

datatype host_call = TrackStop nat | ContextClose nat

section \<open>Construction\<close>

definition defaultConfig :: VADConfig where
  "defaultConfig = \<lparr>aggressiveness = 1, frameDuration = 30, sampleRate = 16000\<rparr>"

text \<open>The field initialisers of the class, followed by \<open>this.config = config\<close>.\<close>

definition VADManager_new :: "VADConfig \<Rightarrow> VADManager" where
  "VADManager_new cfg =
     \<lparr>mediaStream = None, mediaRecorder = None, audioContext = None, analyser = None,
      vad = None, isRecording = False, frameQueue = [], config = cfg, startTime = 0\<rparr>"

text \<open>
  \<open>new VADManager(config)\<close>: an omitted argument takes the default. The constructor
  body has no check and no throw, so the only result is the new object.
\<close>

definition construct :: "VADConfig option \<Rightarrow> js_error + VADManager" where
  "construct arg =
     (case arg of
        None \<Rightarrow> Inr (VADManager_new defaultConfig)
      | Some cfg \<Rightarrow> Inr (VADManager_new cfg))"

section \<open>Release: stopRecording\<close>

text \<open>
  \<open>stopRecording\<close> clears the recording flag, stops every track of the stream it
  holds and drops the stream, closes the audio context it holds and drops it, and then
  clears the analyser and the classifier. \<open>close()\<close> is awaited, so the call has two
  parts. The first runs up to the await: it ends with \<open>close()\<close> called and the
  context still held. The Web Audio API rejects \<open>close()\<close> for a context on which it
  has been called before. The second part runs when the await is over: after a
  rejection it throws, and the three assignments are not reached. Without a context
  there is no await.
\<close>

definition stopTracks :: "VADManager \<Rightarrow> host_call list \<Rightarrow> VADManager \<times> host_call list" where
  "stopTracks m tr =
     (case mediaStream m of
        None \<Rightarrow> (m, tr)
      | Some s \<Rightarrow> (m\<lparr>mediaStream := None\<rparr>, tr @ map TrackStop (getTracks s)))"

datatype close_await = NoAwait | CloseResolves | CloseRejects

definition stopRecordingToAwait ::
  "VADManager \<Rightarrow> host_call list \<Rightarrow> close_await \<times> VADManager \<times> host_call list" where
  "stopRecordingToAwait m tr =
     (let (m1, tr1) = stopTracks (m\<lparr>isRecording := False\<rparr>) tr
      in case audioContext m1 of
           None \<Rightarrow> (NoAwait, m1, tr1)
         | Some c \<Rightarrow>
             (if ContextClose c \<in> set tr1 then CloseRejects else CloseResolves, m1,
              tr1 @ [ContextClose c]))"

definition stopRecordingAfterAwait ::
  "close_await \<Rightarrow> VADManager \<Rightarrow> js_error option \<times> VADManager" where
  "stopRecordingAfterAwait a m =
     (case a of
        NoAwait \<Rightarrow> (None, m\<lparr>analyser := None, vad := None\<rparr>)
      | CloseResolves \<Rightarrow> (None, m\<lparr>audioContext := None, analyser := None, vad := None\<rparr>)
      | CloseRejects \<Rightarrow> (Some (HostError ''InvalidStateError''), m))"

text \<open>
  A call that nothing interleaves with: both parts, one after the other. The result is
  \<open>None\<close> when the call completes and the thrown error otherwise.
\<close>

definition stopRecording ::
  "VADManager \<Rightarrow> host_call list \<Rightarrow> js_error option \<times> VADManager \<times> host_call list" where
  "stopRecording m tr =
     (case stopRecordingToAwait m tr of
        (a, m1, tr1) \<Rightarrow>
          (case stopRecordingAfterAwait a m1 of
             (thrown, m2) \<Rightarrow> (thrown, m2, tr1)))"

text \<open>
  A call that is still suspended at its await: only the first part has run. Without an
  await the call has run to its end.
\<close>

definition stopRecordingPending ::
  "VADManager \<Rightarrow> host_call list \<Rightarrow> VADManager \<times> host_call list" where
  "stopRecordingPending m tr =
     (case stopRecordingToAwait m tr of
        (a, m1, tr1) \<Rightarrow>
          if a = NoAwait then (snd (stopRecordingAfterAwait a m1), tr1) else (m1, tr1))"

section \<open>The recording-state accessor\<close>

text \<open>
  \<open>getRecordingState\<close> reads the clock up to twice: \<open>now1\<close> is the left operand of
  the subtraction, \<open>now2\<close> the reading inside \<open>this.startTime || Date.now()\<close>, taken
  only when \<open>this.startTime\<close> is falsy, that is 0.
\<close>

record RecordingState =
  rs_isRecording :: bool
  rs_duration :: int

definition getRecordingState :: "VADManager \<Rightarrow> int \<Rightarrow> int \<Rightarrow> RecordingState" where
  "getRecordingState m now1 now2 =
     \<lparr>rs_isRecording = isRecording m,
      rs_duration =
        (if isRecording m
         then now1 - (if startTime m \<noteq> 0 then startTime m else now2)
         else 0)\<rparr>"

section \<open>Producing one frame: processAudioFrame and convertToPCM\<close>

text \<open>
  \<open>convertToPCM\<close> maps every byte \<open>b\<close> of its argument to
  \<open>Math.round((b - 128) / 128 * 32767)\<close>, stored in an \<open>Int16Array\<close>. With
  \<open>k = b - 128\<close> the product is the rational \<open>k * 32767 / 128\<close>, which a double holds
  exactly (a 22-bit integer over a power of two), and \<open>Math.round\<close> takes it to
  \<open>floor (x + 1/2)\<close>: in integers, \<open>(k * 32767 + 64) div 128\<close>. The store into the
  \<open>Int16Array\<close> keeps the low 16 bits.
\<close>

definition pcmSample :: "byte \<Rightarrow> int16" where
  "pcmSample b = word_of_int (((uint b - 128) * 32767 + 64) div 128)"

definition convertToPCM :: "byte list \<Rightarrow> int16 list" where
  "convertToPCM frequencyData = map pcmSample frequencyData"

text \<open>
  The analyser of the Web Audio API: \<open>frequencyBinCount\<close> is half of \<open>fftSize\<close>, and
  \<open>getByteFrequencyData\<close> writes the current frequency bins into the array it is given,
  as many as fit, leaving the rest of the zero-initialised array as it is.
\<close>

definition frequencyBinCount :: "AnalyserNode \<Rightarrow> nat" where
  "frequencyBinCount a = fftSize a div 2"

definition getByteFrequencyData :: "byte list \<Rightarrow> nat \<Rightarrow> byte list" where
  "getByteFrequencyData hostBins n = take n (hostBins @ replicate n 0)"

text \<open>
  What the host and the consumer do during one iteration of the loop:
  \<^item> \<open>bins\<close>: the frequency bins the analyser holds when it is read;
  \<^item> \<open>samples\<close>: the time-domain samples the microphone delivered since the last
    iteration (the code never reads them);
  \<^item> \<open>isSpeech\<close>: the classifier's answer to \<open>vad.isSpeech(pcmData, sampleRate)\<close>,
    \<open>None\<close> when the call throws;
  \<^item> \<open>now\<close>: the value of \<open>Date.now()\<close> when the timestamp is taken;
  \<^item> \<open>consumer\<close>: what the consumer does with the generator when it is handed the
    frame: pull the next one, \<open>return()\<close>, or \<open>throw(e)\<close>; it is consulted only in
    an iteration that yields a frame;
  \<^item> \<open>stopCalled\<close>: whether \<open>stopRecording()\<close> is called from outside before the
    loop condition is evaluated again;
  \<^item> \<open>closePending\<close>: for such a call, whether it is still suspended at
    \<open>await this.audioContext.close()\<close> when the loop condition is evaluated again
    (the timer of the loop fired first), or has completed by then.
\<close>

datatype consumer_action = Next | Return | Throw js_error

record tick =
  bins :: "byte list"
  samples :: "int16 list"
  isSpeech :: "int16 list \<Rightarrow> int \<Rightarrow> bool option"
  now :: int
  consumer :: consumer_action
  stopCalled :: bool
  closePending :: bool

text \<open>
  \<open>processAudioFrame(startTime)\<close>: \<open>null\<close> without an analyser or a classifier;
  otherwise the bins are read, converted and classified. Whatever is thrown inside is
  caught and logged, and the result is \<open>null\<close>.
\<close>

definition processAudioFrame :: "int \<Rightarrow> tick \<Rightarrow> VADManager \<Rightarrow> VADFrame option" where
  "processAudioFrame startTime0 t m =
     (case analyser m of
        None \<Rightarrow> None
      | Some a \<Rightarrow>
          (case vad m of
             None \<Rightarrow> None
           | Some v \<Rightarrow>
               (let bufferLength = frequencyBinCount a;
                    dataArray = getByteFrequencyData (bins t) bufferLength;
                    pcmData = convertToPCM dataArray
                in case isSpeech t pcmData (sampleRate (config m)) of
                     None \<Rightarrow> None
                   | Some hv \<Rightarrow>
                       Some \<lparr>frame = pcmData, timestamp = now t - startTime0,
                             hasVoice = hv\<rparr>)))"

section \<open>The recording sequence: recordAndDetectVoice\<close>

text \<open>
  The answers of the host to the calls made before the loop; \<open>Inl e\<close> and \<open>Some e\<close>
  mean that the call throws (or rejects with) \<open>e\<close>. \<open>loadVAD\<close> stands for the dynamic
  import of the classifier library and the call of its constructor.
\<close>

record host_script =
  loadVAD :: "js_error option"
  getUserMedia :: "js_error + MediaStream"
  newAudioContext :: "js_error + nat"
  createAnalyser :: "js_error + AnalyserNode"
  createMediaStreamSource :: "js_error option"
  connectSource :: "js_error option"
  startNow :: int

definition initializeVAD :: "host_script \<Rightarrow> VADManager \<Rightarrow> js_error option \<times> VADManager" where
  "initializeVAD h m =
     (case loadVAD h of
        Some e \<Rightarrow> (Some (SolaceSDKError ''Failed to initialize VAD'' ''VAD_INIT_ERROR'' e), m)
      | None \<Rightarrow> (None, m\<lparr>vad := Some (WebRTCVAD (aggressiveness (config m)))\<rparr>))"

text \<open>
  The statements of the \<open>try\<close> block up to \<open>this.isRecording = true\<close>. Every field
  assigned before a throw keeps its value.
\<close>

definition acquire :: "host_script \<Rightarrow> VADManager \<Rightarrow> js_error option \<times> VADManager" where
  "acquire h m0 =
     (case initializeVAD h m0 of
        (Some e, m1) \<Rightarrow> (Some e, m1)
      | (None, m1) \<Rightarrow>
     (case getUserMedia h of
        Inl e \<Rightarrow> (Some e, m1)
      | Inr s \<Rightarrow>
     (case newAudioContext h of
        Inl e \<Rightarrow> (Some e, m1\<lparr>mediaStream := Some s\<rparr>)
      | Inr c \<Rightarrow>
     (case createAnalyser h of
        Inl e \<Rightarrow> (Some e, m1\<lparr>mediaStream := Some s, audioContext := Some c\<rparr>)
      | Inr a \<Rightarrow>
     (let m4 = m1\<lparr>mediaStream := Some s, audioContext := Some c,
                   analyser := Some (a\<lparr>fftSize := 2048, smoothingTimeConstant := 0.8\<rparr>)\<rparr>
      in case createMediaStreamSource h of
           Some e \<Rightarrow> (Some e, m4)
         | None \<Rightarrow>
        (case connectSource h of
           Some e \<Rightarrow> (Some e, m4)
         | None \<Rightarrow> (None, m4\<lparr>isRecording := True\<rparr>)))))))"

text \<open>How the \<open>try\<close> block is left. \<open>Pending\<close>: it is not; the generator is still live.\<close>

datatype completion = Normal | Pending | ReturnRequested | Thrown js_error

text \<open>
  The timer wait at the end of an iteration, during which a call of \<open>stopRecording()\<close>
  from outside may run, to its end or only as far as its await. An error of that call
  goes to its own caller.
\<close>

definition waitForNextFrame ::
  "tick \<Rightarrow> VADManager \<Rightarrow> host_call list \<Rightarrow> VADManager \<times> host_call list" where
  "waitForNextFrame t m tr =
     (if stopCalled t
      then (if closePending t then stopRecordingPending m tr else snd (stopRecording m tr))
      else (m, tr))"

text \<open>
  The loop \<open>while (this.isRecording)\<close>, run against the ticks the environment supplies.
  A frame that is not \<open>null\<close> is yielded, and the consumer's action decides how the
  generator resumes. When the ticks are used up and the flag is still set, the loop has
  not ended. Calls of \<open>stopRecording()\<close> from outside are considered during the loop
  only, at most one in an iteration.
\<close>

fun frameLoop ::
  "int \<Rightarrow> tick list \<Rightarrow> VADManager \<Rightarrow> host_call list \<Rightarrow>
   completion \<times> VADFrame list \<times> VADManager \<times> host_call list" where
  "frameLoop st [] m tr = (if isRecording m then Pending else Normal, [], m, tr)"
| "frameLoop st (t # ts) m tr =
     (if \<not> isRecording m then (Normal, [], m, tr)
      else
        (case processAudioFrame st t m of
           None \<Rightarrow>
             (case waitForNextFrame t m tr of
                (m1, tr1) \<Rightarrow> frameLoop st ts m1 tr1)
         | Some f \<Rightarrow>
             (case consumer t of
                Return \<Rightarrow> (ReturnRequested, [f], m, tr)
              | Throw e \<Rightarrow> (Thrown e, [f], m, tr)
              | Next \<Rightarrow>
                  (case waitForNextFrame t m tr of
                     (m1, tr1) \<Rightarrow>
                       (case frameLoop st ts m1 tr1 of
                          (x, fs, m2, tr2) \<Rightarrow> (x, f # fs, m2, tr2))))))"

text \<open>
  How the sequence ends for the consumer: it completes, it completes on the consumer's
  \<open>return()\<close>, it rejects, or it has not ended.
\<close>

datatype outcome = Done | Returned | Failed js_error | Suspended

record run =
  outcome :: outcome
  frames :: "VADFrame list"
  manager :: VADManager
  calls :: "host_call list"

text \<open>
  The generator: the \<open>try\<close> block, the \<open>catch\<close> that wraps whatever was thrown in a
  \<open>RECORDING_ERROR\<close>, and the \<open>finally\<close> that awaits \<open>stopRecording()\<close>, whose own
  error, if any, replaces the pending completion. The run records the object and the
  host calls as they are when the sequence ends; what a call from outside that is still
  suspended does afterwards is not part of it.
\<close>

definition recordingError :: "js_error \<Rightarrow> js_error" where
  "recordingError e = SolaceSDKError ''Failed to start voice recording'' ''RECORDING_ERROR'' e"

definition tryBlock ::
  "host_script \<Rightarrow> tick list \<Rightarrow> VADManager \<Rightarrow> host_call list \<Rightarrow>
   completion \<times> VADFrame list \<times> VADManager \<times> host_call list" where
  "tryBlock h ticks m tr =
     (case acquire h m of
        (Some e, m1) \<Rightarrow> (Thrown e, [], m1, tr)
      | (None, m1) \<Rightarrow> frameLoop (startNow h) ticks m1 tr)"

definition finish :: "completion \<Rightarrow> js_error option \<Rightarrow> outcome" where
  "finish x thrown =
     (case thrown of
        Some e \<Rightarrow> Failed e
      | None \<Rightarrow>
          (case x of
             Normal \<Rightarrow> Done
           | ReturnRequested \<Rightarrow> Returned
           | Thrown e \<Rightarrow> Failed (recordingError e)
           | Pending \<Rightarrow> Suspended))"

definition recordAndDetectVoice ::
  "host_script \<Rightarrow> tick list \<Rightarrow> VADManager \<Rightarrow> host_call list \<Rightarrow> run" where
  "recordAndDetectVoice h ticks m tr =
     (case tryBlock h ticks m tr of
        (x, fs, m1, tr1) \<Rightarrow>
          if x = Pending
          then \<lparr>outcome = Suspended, frames = fs, manager = m1, calls = tr1\<rparr>
          else
            (case stopRecording m1 tr1 of
               (thrown, m2, tr2) \<Rightarrow>
                 \<lparr>outcome = finish x thrown, frames = fs, manager = m2, calls = tr2\<rparr>))"

section \<open>The encryption envelope: encryptBlob (crypto.ts)\<close>

record EncryptedBlob =
  iv :: string
  ciphertext :: string
  tag :: string

text \<open>
  The platform functions \<open>encryptBlob\<close> calls, as answers of the host. A \<open>CryptoKey\<close>
  is opaque to the code, so its type is a parameter.
  \<^item> \<open>generateKey\<close>: the outcome of \<open>crypto.subtle.generateKey\<close> for AES-GCM, 256 bits,
    extractable;
  \<^item> \<open>getRandomValues n\<close>: the bytes \<open>crypto.getRandomValues\<close> writes into a new
    \<open>Uint8Array(n)\<close>;
  \<^item> \<open>textEncode\<close>: \<open>TextEncoder.encode\<close>;
  \<^item> \<open>aesGcmEncrypt key iv plaintext\<close>: \<open>crypto.subtle.encrypt\<close>, whose result is the
    ciphertext followed by the 16-byte tag;
  \<^item> \<open>exportKey\<close>: \<open>crypto.subtle.exportKey('raw', key)\<close>;
  \<^item> \<open>btoa\<close>: the base64 encoder of the platform.
\<close>

record 'k crypto_host =
  generateKey :: "js_error + 'k"
  getRandomValues :: "nat \<Rightarrow> byte list"
  textEncode :: "string \<Rightarrow> byte list"
  aesGcmEncrypt :: "'k \<Rightarrow> byte list \<Rightarrow> byte list \<Rightarrow> js_error + byte list"
  exportKey :: "'k \<Rightarrow> js_error + byte list"
  btoa :: "string \<Rightarrow> string"

definition IV_LENGTH :: nat where
  "IV_LENGTH = 12"

text \<open>\<open>CryptoManager.generateKey\<close> and \<open>CryptoManager.exportKey\<close>: each wraps what it catches.\<close>

definition generateKey_wrapped :: "'k crypto_host \<Rightarrow> js_error + 'k" where
  "generateKey_wrapped h =
     (case generateKey h of
        Inl e \<Rightarrow>
          Inl (SolaceSDKError ''Failed to generate encryption key'' ''KEY_GENERATION_ERROR'' e)
      | Inr key \<Rightarrow> Inr key)"

definition exportKey_wrapped :: "'k crypto_host \<Rightarrow> 'k \<Rightarrow> js_error + byte list" where
  "exportKey_wrapped h key =
     (case exportKey h key of
        Inl e \<Rightarrow> Inl (SolaceSDKError ''Failed to export encryption key'' ''KEY_EXPORT_ERROR'' e)
      | Inr raw \<Rightarrow> Inr raw)"

text \<open>
  \<open>ArrayBuffer.prototype.slice(begin, end)\<close>: a negative index counts from the end, and
  both indices are clamped to the buffer. \<open>slice(begin)\<close> is \<open>slice(begin, byteLength)\<close>.
\<close>

definition relativeIndex :: "int \<Rightarrow> nat \<Rightarrow> nat" where
  "relativeIndex i len = (if i < 0 then nat (max (int len + i) 0) else min (nat i) len)"

definition slice :: "byte list \<Rightarrow> int \<Rightarrow> int \<Rightarrow> byte list" where
  "slice buffer begin end0 =
     (let first = relativeIndex begin (length buffer);
          final = relativeIndex end0 (length buffer)
      in take (final - first) (drop first buffer))"

text \<open>\<open>arrayBufferToBase64\<close>: one character per byte, then \<open>btoa\<close>.\<close>

definition arrayBufferToBase64 :: "'k crypto_host \<Rightarrow> byte list \<Rightarrow> string" where
  "arrayBufferToBase64 h buffer = btoa h (map (\<lambda>b. char_of (unat b)) buffer)"

definition encryptionError :: "js_error \<Rightarrow> js_error" where
  "encryptionError e = SolaceSDKError ''Encryption failed'' ''ENCRYPTION_ERROR'' e"

text \<open>
  \<open>encryptBlob(data)\<close>. The key is generated inside the call; the exported
  \<open>keyBuffer\<close> is bound and not used again. The function reads and writes no field:
  \<open>CryptoManager\<close> has only constants.
\<close>

definition encryptBlob :: "'k crypto_host \<Rightarrow> string \<Rightarrow> js_error + EncryptedBlob" where
  "encryptBlob h data =
     (case generateKey_wrapped h of
        Inl e \<Rightarrow> Inl (encryptionError e)
      | Inr key \<Rightarrow>
          (let iv0 = getRandomValues h IV_LENGTH;
               plaintext = textEncode h data
           in case aesGcmEncrypt h key iv0 plaintext of
                Inl e \<Rightarrow> Inl (encryptionError e)
              | Inr encrypted \<Rightarrow>
                  (let ciphertextLength = int (length encrypted) - 16;
                       ciphertext0 = slice encrypted 0 ciphertextLength;
                       tag0 = slice encrypted ciphertextLength (int (length encrypted))
                   in case exportKey_wrapped h key of
                        Inl e \<Rightarrow> Inl (encryptionError e)
                      | Inr keyBuffer \<Rightarrow>
                          Inr \<lparr>iv = arrayBufferToBase64 h iv0,
                               ciphertext = arrayBufferToBase64 h ciphertext0,
                               tag = arrayBufferToBase64 h tag0\<rparr>)))"

section \<open>Notions used to state the properties\<close>

text \<open>
  The configurations the specification allows, and its frame length in samples. Neither
  is computed anywhere in the code; they are written down from the specification to
  state its claims.
\<close>

definition spec_valid_config :: "VADConfig \<Rightarrow> bool" where
  "spec_valid_config cfg \<longleftrightarrow>
     aggressiveness cfg \<in> {0, 1, 2, 3} \<and>
     frameDuration cfg \<in> {10, 20, 30} \<and>
     sampleRate cfg \<in> {8000, 16000, 32000, 48000}"

definition spec_frameLengthSamples :: "VADConfig \<Rightarrow> int" where
  "spec_frameLengthSamples cfg = sampleRate cfg * frameDuration cfg div 1000"

definition samplesDelivered :: "tick list \<Rightarrow> int" where
  "samplesDelivered ticks = sum_list (map (\<lambda>t. int (length (samples t))) ticks)"

text \<open>
  The object after a completed release, the release calls an object is owed for the
  handles it holds (every track of its stream, in order, then its context), and the
  condition that the context the host hands out has not been closed before.
\<close>

definition cleared :: "VADManager \<Rightarrow> VADManager" where
  "cleared m =
     m\<lparr>mediaStream := None, audioContext := None, analyser := None, vad := None,
       isRecording := False\<rparr>"

definition owedRelease :: "VADManager \<Rightarrow> host_call list" where
  "owedRelease m =
     (case mediaStream m of None \<Rightarrow> [] | Some s \<Rightarrow> map TrackStop (getTracks s)) @
     (case audioContext m of None \<Rightarrow> [] | Some c \<Rightarrow> [ContextClose c])"

definition freshContext :: "host_script \<Rightarrow> host_call list \<Rightarrow> bool" where
  "freshContext h tr =
     (case newAudioContext h of Inl e \<Rightarrow> True | Inr c \<Rightarrow> ContextClose c \<notin> set tr)"

text \<open>
  What \<open>processAudioFrame\<close> hands to the classifier in an iteration, for the analyser the
  sequence sets up (\<open>fftSize\<close> 2048, so 1024 bins).
\<close>

definition snapshot :: "tick \<Rightarrow> int16 list" where
  "snapshot t = convertToPCM (getByteFrequencyData (bins t) 1024)"

subsection \<open>Concrete hosts and runs\<close>

text \<open>
  A host on which every acquisition succeeds: a stream with one track, context 7, an
  analyser with the defaults of the Web Audio API, and a clock that reads 1000 at the
  start.
\<close>

definition host0 :: host_script where
  "host0 =
     \<lparr>loadVAD = None, getUserMedia = Inr (MediaStream [1]), newAudioContext = Inr 7,
      createAnalyser = Inr \<lparr>fftSize = 2048, smoothingTimeConstant = 0.8\<rparr>,
      createMediaStreamSource = None, connectSource = None, startNow = 1000\<rparr>"

text \<open>
  An iteration at clock reading \<open>n\<close> in which the analyser holds a silent spectrum, the
  microphone delivered 200 samples, the classifier answers \<open>v\<close>, the consumer pulls the
  next frame and nobody calls \<open>stopRecording\<close>.
\<close>

definition tickAt :: "int \<Rightarrow> bool option \<Rightarrow> tick" where
  "tickAt n v =
     \<lparr>bins = replicate 1024 0, samples = replicate 200 0, isSpeech = (\<lambda>pcm sr. v), now = n,
      consumer = Next, stopCalled = False, closePending = False\<rparr>"

text \<open>
  Ten iterations, 30 ms apart; the classifier throws in the fifth, and
  \<open>stopRecording\<close> is called from outside during the tenth and completes.
\<close>

definition stream10 :: "tick list" where
  "stream10 =
     [tickAt 1030 (Some True), tickAt 1060 (Some True), tickAt 1090 (Some False),
      tickAt 1120 (Some True), tickAt 1150 None, tickAt 1180 (Some True),
      tickAt 1210 (Some False), tickAt 1240 (Some True), tickAt 1270 (Some True),
      (tickAt 1300 (Some True))\<lparr>stopCalled := True\<rparr>]"

text \<open>
  An iteration during which \<open>stopRecording\<close> is called from outside and is still
  waiting for \<open>close()\<close> when the timer of the loop fires.
\<close>

definition pendingStop :: tick where
  "pendingStop = (tickAt 1030 (Some True))\<lparr>stopCalled := True, closePending := True\<rparr>"

definition chunks3 :: "tick list" where
  "chunks3 = [tickAt 1030 (Some True), tickAt 1060 (Some False), tickAt 1090 (Some True)]"

text \<open>
  An iteration in which the microphone delivered 480 samples of value 1000 while the
  spectrum is silent, with a classifier that answers whether it was handed exactly the
  samples the microphone delivered.
\<close>

definition micTick :: tick where
  "micTick =
     \<lparr>bins = replicate 1024 0, samples = replicate 480 1000,
      isSpeech = (\<lambda>pcm sr. Some (pcm = replicate 480 1000)), now = 1030,
      consumer = Next, stopCalled = False, closePending = False\<rparr>"

text \<open>
  A stand-in for the platform's cryptography, for evaluating \<open>encryptBlob\<close>: key 42, an
  initialisation vector of sevens, an encoder that gives one byte 104 for every
  character, a cipher that appends a tag of sixteen ones, and the identity for \<open>btoa\<close>.
\<close>

definition toyCrypto :: "nat crypto_host" where
  "toyCrypto =
     \<lparr>generateKey = Inr 42,
      getRandomValues = (\<lambda>n. replicate n 7),
      textEncode = (\<lambda>s. map (\<lambda>c. 104) s),
      aesGcmEncrypt = (\<lambda>key iv0 plaintext. Inr (plaintext @ replicate 16 1)),
      exportKey = (\<lambda>key. Inr [42]),
      btoa = (\<lambda>s. s)\<rparr>"

section \<open>Auxiliary facts\<close>

subsection \<open>Release\<close>

lemma stopRecording_unfold:
  "stopRecording m tr =
     (let (m1, tr1) = stopTracks (m\<lparr>isRecording := False\<rparr>) tr
      in case audioContext m1 of
           None \<Rightarrow> (None, m1\<lparr>analyser := None, vad := None\<rparr>, tr1)
         | Some c \<Rightarrow>
             if ContextClose c \<in> set tr1
             then (Some (HostError ''InvalidStateError''), m1, tr1 @ [ContextClose c])
             else (None, m1\<lparr>audioContext := None, analyser := None, vad := None\<rparr>,
                   tr1 @ [ContextClose c]))"
  by (simp add: stopRecording_def stopRecordingToAwait_def stopRecordingAfterAwait_def Let_def
      split: prod.splits option.splits)

lemma stopRecordingPending_unfold:
  "stopRecordingPending m tr =
     (let (m1, tr1) = stopTracks (m\<lparr>isRecording := False\<rparr>) tr
      in case audioContext m1 of
           None \<Rightarrow> (m1\<lparr>analyser := None, vad := None\<rparr>, tr1)
         | Some c \<Rightarrow> (m1, tr1 @ [ContextClose c]))"
  by (simp add: stopRecordingPending_def stopRecordingToAwait_def stopRecordingAfterAwait_def
      Let_def split: prod.splits option.splits)

lemmas run_defs =
  recordAndDetectVoice_def tryBlock_def acquire_def initializeVAD_def VADManager_new_def
  processAudioFrame_def waitForNextFrame_def stopRecording_unfold stopRecordingPending_unfold
  stopTracks_def finish_def frequencyBinCount_def

lemma stopTracks_fields:
  "mediaStream (fst (stopTracks m tr)) = None"
  "audioContext (fst (stopTracks m tr)) = audioContext m"
  "isRecording (fst (stopTracks m tr)) = isRecording m"
  by (simp_all add: stopTracks_def split: option.splits)

lemma close_not_a_stop [simp]: "ContextClose c \<notin> TrackStop ` A"
  by auto

lemma stopRecording_open:
  assumes "\<And>c. audioContext m = Some c \<Longrightarrow> ContextClose c \<notin> set tr"
  shows "stopRecording m tr = (None, cleared m, tr @ owedRelease m)"
  using assms
  by (cases "mediaStream m"; cases "audioContext m")
     (simp_all add: stopRecording_unfold stopTracks_def cleared_def owedRelease_def)

lemma stopRecording_clears_flag:
  "isRecording (fst (snd (stopRecording m tr))) = False"
  by (cases "mediaStream m"; cases "audioContext m")
     (simp_all add: stopRecording_unfold stopTracks_def)

lemma stopRecording_startTime:
  "startTime (fst (snd (stopRecording m tr))) = startTime m"
  by (cases "mediaStream m"; cases "audioContext m")
     (simp_all add: stopRecording_unfold stopTracks_def)

lemma cleared_fields [simp]:
  "mediaStream (cleared m) = None" "audioContext (cleared m) = None"
  "isRecording (cleared m) = False" "cleared (cleared m) = cleared m"
  "owedRelease (cleared m) = []"
  by (simp_all add: cleared_def owedRelease_def)

lemma stopRecording_cleared:
  "stopRecording (cleared m) tr = (None, cleared m, tr)"
  using stopRecording_open [of "cleared m" tr] by simp

lemma stopRecordingPending_clears_flag:
  "isRecording (fst (stopRecordingPending m tr)) = False"
  by (cases "mediaStream m"; cases "audioContext m")
     (simp_all add: stopRecordingPending_unfold stopTracks_def)

lemma stopRecordingPending_startTime:
  "startTime (fst (stopRecordingPending m tr)) = startTime m"
  by (cases "mediaStream m"; cases "audioContext m")
     (simp_all add: stopRecordingPending_unfold stopTracks_def)

text \<open>
  An outside call that is suspended at its await has made every release call owed and
  still holds the context; a second call in that state calls \<open>close()\<close> again and
  throws.
\<close>

lemma stopRecordingPending_open:
  assumes "audioContext m = Some c"
  shows "stopRecordingPending m tr =
           (m\<lparr>isRecording := False, mediaStream := None\<rparr>, tr @ owedRelease m)"
  using assms
  by (cases "mediaStream m")
     (simp_all add: stopRecordingPending_unfold stopTracks_def owedRelease_def)

lemma stopRecording_after_pending:
  assumes "audioContext m = Some c"
  shows "stopRecording (m\<lparr>isRecording := False, mediaStream := None\<rparr>) (tr @ owedRelease m) =
           (Some (HostError ''InvalidStateError''), m\<lparr>isRecording := False, mediaStream := None\<rparr>,
            tr @ owedRelease m @ [ContextClose c])"
  using assms
  by (simp add: stopRecording_unfold stopTracks_def owedRelease_def)

subsection \<open>Acquisition\<close>

lemma acquire_cleared:
  "cleared (snd (acquire h (VADManager_new cfg))) = VADManager_new cfg"
  by (simp add: acquire_def initializeVAD_def cleared_def VADManager_new_def Let_def
      split: option.splits sum.splits)

lemma acquire_ok_recording:
  "fst (acquire h m) = None \<Longrightarrow> isRecording (snd (acquire h m))"
  by (simp add: acquire_def initializeVAD_def Let_def split: option.splits sum.splits)

lemma acquire_ok_context:
  "fst (acquire h (VADManager_new cfg)) = None \<Longrightarrow>
   \<exists>c. audioContext (snd (acquire h (VADManager_new cfg))) = Some c"
  by (simp add: acquire_def initializeVAD_def VADManager_new_def Let_def
      split: option.splits sum.splits)

lemma acquire_context:
  "audioContext (snd (acquire h (VADManager_new cfg))) = Some c \<Longrightarrow> newAudioContext h = Inr c"
  by (simp add: acquire_def initializeVAD_def VADManager_new_def Let_def
      split: option.splits sum.splits)

lemma acquire_analyser:
  "analyser (snd (acquire h (VADManager_new cfg))) = Some a \<Longrightarrow> fftSize a = 2048"
  by (auto simp: acquire_def initializeVAD_def VADManager_new_def Let_def
      split: option.splits sum.splits)

lemma acquire_startTime: "startTime (snd (acquire h m)) = startTime m"
  by (simp add: acquire_def initializeVAD_def Let_def split: option.splits sum.splits)

lemma owedRelease_acquire:
  "owedRelease (snd (acquire h (VADManager_new cfg))) =
     (if loadVAD h = None
      then (case getUserMedia h of
              Inl x \<Rightarrow> []
            | Inr s \<Rightarrow>
                map TrackStop (getTracks s) @
                (case newAudioContext h of Inl x \<Rightarrow> [] | Inr c \<Rightarrow> [ContextClose c]))
      else [])"
  by (simp add: owedRelease_def acquire_def initializeVAD_def VADManager_new_def Let_def
      split: option.splits sum.splits)

lemma stopRecording_acquired:
  assumes "freshContext h tr"
  shows "stopRecording (snd (acquire h (VADManager_new cfg))) tr =
           (None, VADManager_new cfg, tr @ owedRelease (snd (acquire h (VADManager_new cfg))))"
proof -
  have "\<And>c. audioContext (snd (acquire h (VADManager_new cfg))) = Some c \<Longrightarrow>
          ContextClose c \<notin> set tr"
    using assms acquire_context [of h cfg] by (auto simp: freshContext_def)
  then show ?thesis
    using stopRecording_open [of "snd (acquire h (VADManager_new cfg))" tr]
    by (simp add: acquire_cleared)
qed

subsection \<open>One frame\<close>

lemma pcmSample_0: "pcmSample 0 = - 32767"
  by (simp add: pcmSample_def)

lemma pcmSample_no_wrap:
  "sint (pcmSample b) = ((uint b - 128) * 32767 + 64) div 128"
proof -
  have b: "0 \<le> uint b" "uint b < 256"
    using uint_lt2p [of b] by simp_all
  have "(- 128 * 32767 + 64) div 128 \<le> ((uint b - 128) * 32767 + 64) div 128"
    using b by (intro zdiv_mono1) simp_all
  moreover
  have "((uint b - 128) * 32767 + 64) div 128 \<le> ((255 - 128) * 32767 + 64) div (128::int)"
    using b by (intro zdiv_mono1) simp_all
  ultimately have "- (2 ^ 15) \<le> ((uint b - 128) * 32767 + 64) div 128"
    and "((uint b - 128) * 32767 + 64) div 128 < 2 ^ 15"
    by simp_all
  then show ?thesis
    by (simp add: pcmSample_def sint_sbintrunc' signed_take_bit_int_eq_self)
qed

lemma processAudioFrame_running:
  assumes "fst (acquire h (VADManager_new cfg)) = None"
  shows "processAudioFrame st t (snd (acquire h (VADManager_new cfg))) =
           map_option (\<lambda>hv. \<lparr>frame = snapshot t, timestamp = now t - st, hasVoice = hv\<rparr>)
             (isSpeech t (snapshot t) (sampleRate cfg))"
  using assms
  by (auto simp: acquire_def initializeVAD_def VADManager_new_def Let_def processAudioFrame_def
      frequencyBinCount_def snapshot_def
      split: option.splits sum.splits)

lemma processAudioFrame_samples [simp]:
  "processAudioFrame st (t\<lparr>samples := xs\<rparr>) m = processAudioFrame st t m"
  by (auto simp: processAudioFrame_def Let_def split: option.splits)

lemma timestamp_processAudioFrame:
  "processAudioFrame st t m = Some f \<Longrightarrow> timestamp f = now t - st"
  by (auto simp: processAudioFrame_def Let_def split: option.splits)

lemma frame_length_processAudioFrame:
  "processAudioFrame st t m = Some f \<Longrightarrow>
   \<exists>a. analyser m = Some a \<and> length (frame f) = frequencyBinCount a"
  by (auto simp: processAudioFrame_def Let_def convertToPCM_def getByteFrequencyData_def
      split: option.splits)

subsection \<open>The loop\<close>

lemma frameLoop_not_recording:
  "\<not> isRecording m \<Longrightarrow> frameLoop st ticks m tr = (Normal, [], m, tr)"
  by (cases ticks) simp_all

lemma waitForNextFrame_samples [simp]:
  "waitForNextFrame (t\<lparr>samples := xs\<rparr>) m tr = waitForNextFrame t m tr"
  by (simp add: waitForNextFrame_def)

lemma waitForNextFrame_no_stop:
  "\<not> stopCalled t \<Longrightarrow> waitForNextFrame t m tr = (m, tr)"
  by (simp add: waitForNextFrame_def)

lemma waitForNextFrame_stop:
  "stopCalled t \<Longrightarrow> \<not> isRecording (fst (waitForNextFrame t m tr))"
  using stopRecording_clears_flag [of m tr] stopRecordingPending_clears_flag [of m tr]
  by (simp add: waitForNextFrame_def)

lemma waitForNextFrame_startTime:
  "startTime (fst (waitForNextFrame t m tr)) = startTime m"
  using stopRecording_startTime [of m tr] stopRecordingPending_startTime [of m tr]
  by (simp add: waitForNextFrame_def)

lemma frameLoop_after_stop:
  assumes "stopCalled t"
  shows "frameLoop st ts (fst (waitForNextFrame t m tr)) (snd (waitForNextFrame t m tr)) =
           (Normal, [], waitForNextFrame t m tr)"
  using frameLoop_not_recording [OF waitForNextFrame_stop [OF assms]] by simp

text \<open>
  Started with the flag set, and with every outside call of \<open>stopRecording\<close> completing
  before the loop goes on, the loop is left normally only after such a call, and then in
  the state that call produced; left in any other way, or not left, it has changed
  neither the object nor the host.
\<close>

lemma frameLoop_exit:
  assumes "isRecording m" and "\<forall>t\<in>set ticks. \<not> closePending t"
  shows "(fst (frameLoop st ticks m tr) = Normal \<and>
            snd (snd (frameLoop st ticks m tr)) = snd (stopRecording m tr)) \<or>
         (fst (frameLoop st ticks m tr) \<noteq> Normal \<and>
            snd (snd (frameLoop st ticks m tr)) = (m, tr))"
  using assms(2)
proof (induction ticks)
  case Nil
  show ?case using assms(1) by simp
next
  case (Cons t ts)
  show ?case
  proof (cases "stopCalled t")
    case True
    have w: "waitForNextFrame t m tr = snd (stopRecording m tr)"
      using True Cons.prems by (simp add: waitForNextFrame_def)
    show ?thesis
      using assms(1) frameLoop_after_stop [OF True, of st ts m tr] w
      by (cases "snd (stopRecording m tr)")
         (simp split: option.splits consumer_action.splits)
  next
    case False
    then have w: "waitForNextFrame t m tr = (m, tr)"
      by (rule waitForNextFrame_no_stop)
    show ?thesis
      using assms(1) w Cons.IH Cons.prems
      by (auto split: option.splits consumer_action.splits prod.splits)
  qed
qed

text \<open>
  The frames the loop yields are, in order, the frames of the iterations it went through:
  an initial part of what the iterations produce.
\<close>

lemma frameLoop_frames_prefix:
  assumes "isRecording m"
  shows "prefix (fst (snd (frameLoop st ticks m tr)))
           (List.map_filter (\<lambda>t. processAudioFrame st t m) ticks)"
proof (induction ticks)
  case Nil
  show ?case by simp
next
  case (Cons t ts)
  show ?case
  proof (cases "stopCalled t")
    case True
    show ?thesis
      using assms frameLoop_after_stop [OF True, of st ts m tr]
      by (cases "waitForNextFrame t m tr")
         (simp split: option.splits consumer_action.splits)
  next
    case False
    then have w: "waitForNextFrame t m tr = (m, tr)"
      by (rule waitForNextFrame_no_stop)
    show ?thesis
      using assms w Cons.IH
      by (auto split: option.splits consumer_action.splits prod.splits)
  qed
qed

lemma frameLoop_all_pulled:
  assumes "isRecording m"
    and "\<forall>t\<in>set ticks. consumer t = Next"
    and "\<forall>t\<in>set (butlast ticks). \<not> stopCalled t"
  shows "fst (snd (frameLoop st ticks m tr)) =
           List.map_filter (\<lambda>t. processAudioFrame st t m) ticks \<and>
         fst (frameLoop st ticks m tr) =
           (if ticks \<noteq> [] \<and> stopCalled (last ticks) then Normal else Pending) \<and>
         snd (snd (frameLoop st ticks m tr)) =
           (if ticks \<noteq> [] \<and> stopCalled (last ticks) then waitForNextFrame (last ticks) m tr
            else (m, tr))"
  using assms(2,3)
proof (induction ticks)
  case Nil
  show ?case using assms(1) by simp
next
  case (Cons t ts)
  show ?case
  proof (cases "ts = []")
    case True
    show ?thesis
    proof (cases "stopCalled t")
      case stop: True
      show ?thesis
        using True stop assms(1) Cons.prems(1) frameLoop_after_stop [OF stop, of st "[]" m tr]
        by (cases "waitForNextFrame t m tr") (simp split: option.splits)
    next
      case False
      then show ?thesis
        using True assms(1) Cons.prems(1) waitForNextFrame_no_stop [OF False, of m tr]
        by (simp split: option.splits)
    qed
  next
    case False
    then have "\<not> stopCalled t" using Cons.prems(2) by simp
    then have w: "waitForNextFrame t m tr = (m, tr)"
      by (rule waitForNextFrame_no_stop)
    have ih: "fst (snd (frameLoop st ts m tr)) =
           List.map_filter (\<lambda>t. processAudioFrame st t m) ts \<and>
         fst (frameLoop st ts m tr) =
           (if ts \<noteq> [] \<and> stopCalled (last ts) then Normal else Pending) \<and>
         snd (snd (frameLoop st ts m tr)) =
           (if ts \<noteq> [] \<and> stopCalled (last ts) then waitForNextFrame (last ts) m tr
            else (m, tr))"
      using Cons.IH Cons.prems False by simp
    show ?thesis
      using assms(1) w ih False Cons.prems(1)
      by (auto split: option.splits prod.splits)
  qed
qed

lemma frameLoop_samples:
  "frameLoop st (map (\<lambda>t. t\<lparr>samples := g t\<rparr>) ticks) m tr = frameLoop st ticks m tr"
  by (induction ticks arbitrary: m tr)
     (simp_all split: option.splits consumer_action.splits prod.splits)

lemma frameLoop_startTime:
  "startTime (fst (snd (snd (frameLoop st ticks m tr)))) = startTime m"
proof (induction ticks arbitrary: m tr)
  case Nil
  show ?case by simp
next
  case (Cons t ts)
  obtain m1 tr1 where w1: "waitForNextFrame t m tr = (m1, tr1)"
    by (cases "waitForNextFrame t m tr")
  with waitForNextFrame_startTime [of t m tr] have "startTime m1 = startTime m" by simp
  with Cons [of m1 tr1] w1 show ?case
    by (auto split: option.splits consumer_action.splits prod.splits)
qed

subsection \<open>The whole sequence\<close>

lemma frames_tryBlock:
  "frames (recordAndDetectVoice h ticks m tr) = fst (snd (tryBlock h ticks m tr))"
  by (simp add: recordAndDetectVoice_def split: prod.splits)

text \<open>When a step of acquisition throws, the sequence releases what it holds and rejects.\<close>

lemma run_acquisition_failed:
  assumes "fst (acquire h (VADManager_new cfg)) = Some e" and "freshContext h tr"
  shows "recordAndDetectVoice h ticks (VADManager_new cfg) tr =
           \<lparr>outcome = Failed (recordingError e), frames = [], manager = VADManager_new cfg,
            calls = tr @ owedRelease (snd (acquire h (VADManager_new cfg)))\<rparr>"
proof -
  have tb: "tryBlock h ticks (VADManager_new cfg) tr =
      (Thrown e, [], snd (acquire h (VADManager_new cfg)), tr)"
    using assms(1) by (cases "acquire h (VADManager_new cfg)") (simp add: tryBlock_def)
  show ?thesis
    using stopRecording_acquired [OF assms(2), of cfg]
    by (simp add: recordAndDetectVoice_def tb finish_def)
qed

text \<open>
  A sequence started on a new object, with every outside call of \<open>stopRecording\<close>
  completing before the loop goes on, either has not ended, and then holds what it
  acquired and has released nothing, or has ended, and then the object is as new and the
  host has received exactly the release calls owed for what was acquired.
\<close>

lemma run_shape:
  assumes "freshContext h tr" and "\<forall>t\<in>set ticks. \<not> closePending t"
  shows "recordAndDetectVoice h ticks (VADManager_new cfg) tr =
           (if fst (tryBlock h ticks (VADManager_new cfg) tr) = Pending
            then \<lparr>outcome = Suspended,
                  frames = fst (snd (tryBlock h ticks (VADManager_new cfg) tr)),
                  manager = snd (acquire h (VADManager_new cfg)), calls = tr\<rparr>
            else \<lparr>outcome = finish (fst (tryBlock h ticks (VADManager_new cfg) tr)) None,
                  frames = fst (snd (tryBlock h ticks (VADManager_new cfg) tr)),
                  manager = VADManager_new cfg,
                  calls = tr @ owedRelease (snd (acquire h (VADManager_new cfg)))\<rparr>)"
proof (cases "fst (acquire h (VADManager_new cfg))")
  case (Some e)
  then have tb: "tryBlock h ticks (VADManager_new cfg) tr =
      (Thrown e, [], snd (acquire h (VADManager_new cfg)), tr)"
    by (cases "acquire h (VADManager_new cfg)") (simp add: tryBlock_def)
  show ?thesis
    using run_acquisition_failed [OF Some assms(1), of ticks]
    by (simp add: tb finish_def)
next
  case None
  let ?m = "snd (acquire h (VADManager_new cfg))"
  have rec: "isRecording ?m" using None by (rule acquire_ok_recording)
  have tb: "tryBlock h ticks (VADManager_new cfg) tr = frameLoop (startNow h) ticks ?m tr"
    using None by (cases "acquire h (VADManager_new cfg)") (simp add: tryBlock_def)
  obtain x fs m1 tr1 where fl: "frameLoop (startNow h) ticks ?m tr = (x, fs, m1, tr1)"
    by (cases "frameLoop (startNow h) ticks ?m tr")
  have st: "stopRecording ?m tr = (None, VADManager_new cfg, tr @ owedRelease ?m)"
    by (rule stopRecording_acquired [OF assms(1)])
  from frameLoop_exit [OF rec assms(2), of "startNow h" tr] fl st
  consider (stopped) "x = Normal" "m1 = VADManager_new cfg" "tr1 = tr @ owedRelease ?m"
    | (live) "x \<noteq> Normal" "m1 = ?m" "tr1 = tr"
    by auto
  then show ?thesis
  proof cases
    case stopped
    have "stopRecording (VADManager_new cfg) tr1 = (None, VADManager_new cfg, tr1)"
      using stopRecording_cleared [of ?m tr1] by (simp add: acquire_cleared)
    then show ?thesis
      using stopped by (simp add: recordAndDetectVoice_def tb fl)
  next
    case live
    then show ?thesis
      using st by (simp add: recordAndDetectVoice_def tb fl)
  qed
qed

lemma tryBlock_frames_prefix:
  "prefix (fst (snd (tryBlock h ticks (VADManager_new cfg) tr)))
     (List.map_filter
        (\<lambda>t. processAudioFrame (startNow h) t (snd (acquire h (VADManager_new cfg)))) ticks)"
proof (cases "fst (acquire h (VADManager_new cfg))")
  case (Some e)
  then show ?thesis
    by (cases "acquire h (VADManager_new cfg)") (simp add: tryBlock_def)
next
  case None
  then have "tryBlock h ticks (VADManager_new cfg) tr =
      frameLoop (startNow h) ticks (snd (acquire h (VADManager_new cfg))) tr"
    by (cases "acquire h (VADManager_new cfg)") (simp add: tryBlock_def)
  then show ?thesis
    using frameLoop_frames_prefix [OF acquire_ok_recording [OF None]] by simp
qed

text \<open>
  When acquisition succeeds, the consumer pulls after every frame and nobody stops the
  recording before the last iteration, every iteration's frame is in the output. The
  sequence is then still live, or it has ended on the outside call of \<open>stopRecording\<close>
  in the last iteration: completed, when that call had completed, and rejected by the
  second \<open>close()\<close>, when it was still suspended.
\<close>

lemma run_all_pulled:
  assumes "fst (acquire h (VADManager_new cfg)) = None"
    and "freshContext h tr"
    and "\<forall>t\<in>set ticks. consumer t = Next"
    and "\<forall>t\<in>set (butlast ticks). \<not> stopCalled t"
  shows "frames (recordAndDetectVoice h ticks (VADManager_new cfg) tr) =
           List.map_filter
             (\<lambda>t. map_option
                    (\<lambda>hv. \<lparr>frame = snapshot t, timestamp = now t - startNow h, hasVoice = hv\<rparr>)
                    (isSpeech t (snapshot t) (sampleRate cfg)))
             ticks \<and>
         outcome (recordAndDetectVoice h ticks (VADManager_new cfg) tr) =
           (if ticks \<noteq> [] \<and> stopCalled (last ticks)
            then (if closePending (last ticks) then Failed (HostError ''InvalidStateError'')
                  else Done)
            else Suspended)"
proof -
  let ?m = "snd (acquire h (VADManager_new cfg))"
  let ?loop = "frameLoop (startNow h) ticks ?m tr"
  have tb: "tryBlock h ticks (VADManager_new cfg) tr = ?loop"
    using assms(1) by (cases "acquire h (VADManager_new cfg)") (simp add: tryBlock_def)
  have loop: "fst (snd ?loop) =
           List.map_filter (\<lambda>t. processAudioFrame (startNow h) t ?m) ticks \<and>
         fst ?loop = (if ticks \<noteq> [] \<and> stopCalled (last ticks) then Normal else Pending) \<and>
         snd (snd ?loop) =
           (if ticks \<noteq> [] \<and> stopCalled (last ticks) then waitForNextFrame (last ticks) ?m tr
            else (?m, tr))"
    by (rule frameLoop_all_pulled [OF acquire_ok_recording [OF assms(1)] assms(3,4)])
  have pf: "(\<lambda>t. processAudioFrame (startNow h) t ?m) =
        (\<lambda>t. map_option
                (\<lambda>hv. \<lparr>frame = snapshot t, timestamp = now t - startNow h, hasVoice = hv\<rparr>)
                (isSpeech t (snapshot t) (sampleRate cfg)))"
    using processAudioFrame_running [OF assms(1)] by auto
  have fr: "frames (recordAndDetectVoice h ticks (VADManager_new cfg) tr) = fst (snd ?loop)"
    by (simp add: frames_tryBlock tb)
  obtain c where c: "audioContext ?m = Some c"
    using acquire_ok_context [OF assms(1)] by blast
  have completed: "snd (stopRecording ?m tr) = (VADManager_new cfg, tr @ owedRelease ?m)"
    using stopRecording_acquired [OF assms(2), of cfg] by simp
  have again: "stopRecording (VADManager_new cfg) (tr @ owedRelease ?m) =
      (None, VADManager_new cfg, tr @ owedRelease ?m)"
    using stopRecording_cleared [of ?m "tr @ owedRelease ?m"] by (simp add: acquire_cleared)
  have pending: "stopRecordingPending ?m tr =
      (?m\<lparr>isRecording := False, mediaStream := None\<rparr>, tr @ owedRelease ?m)"
    by (rule stopRecordingPending_open [OF c])
  have twice: "fst (stopRecording (?m\<lparr>isRecording := False, mediaStream := None\<rparr>)
      (tr @ owedRelease ?m)) = Some (HostError ''InvalidStateError'')"
    using stopRecording_after_pending [OF c, of tr] by simp
  obtain x fs m1 tr1 where fl: "?loop = (x, fs, m1, tr1)"
    by (cases ?loop)
  have oc: "outcome (recordAndDetectVoice h ticks (VADManager_new cfg) tr) =
      (if x = Pending then Suspended else finish x (fst (stopRecording m1 tr1)))"
    by (cases "stopRecording m1 tr1") (simp add: recordAndDetectVoice_def tb fl)
  show ?thesis
  proof (cases "ticks \<noteq> [] \<and> stopCalled (last ticks)")
    case False
    then have "x = Pending" using loop fl by auto
    then show ?thesis
      using False loop by (auto simp: fr oc pf)
  next
    case True
    then have x: "x = Normal" using loop fl by simp
    have state: "(m1, tr1) = waitForNextFrame (last ticks) ?m tr"
      using True loop fl by simp
    show ?thesis
    proof (cases "closePending (last ticks)")
      case p: True
      have "(m1, tr1) = (?m\<lparr>isRecording := False, mediaStream := None\<rparr>, tr @ owedRelease ?m)"
        using state True p pending by (simp add: waitForNextFrame_def)
      then have "fst (stopRecording m1 tr1) = Some (HostError ''InvalidStateError'')"
        using twice by simp
      then show ?thesis
        using True p loop x by (simp add: fr oc pf finish_def)
    next
      case p: False
      have "(m1, tr1) = (VADManager_new cfg, tr @ owedRelease ?m)"
        using state True p completed by (simp add: waitForNextFrame_def)
      then have "fst (stopRecording m1 tr1) = None"
        using again by simp
      then show ?thesis
        using True p loop x by (simp add: fr oc pf finish_def)
    qed
  qed
qed

lemma run_samples:
  "recordAndDetectVoice h (map (\<lambda>t. t\<lparr>samples := g t\<rparr>) ticks) m tr =
   recordAndDetectVoice h ticks m tr"
  by (simp add: recordAndDetectVoice_def tryBlock_def frameLoop_samples
      split: prod.splits option.splits)

lemma run_frame_lengths:
  assumes "f \<in> set (frames (recordAndDetectVoice h ticks (VADManager_new cfg) tr))"
  shows "length (frame f) = 1024"
proof -
  let ?m = "snd (acquire h (VADManager_new cfg))"
  have "set (frames (recordAndDetectVoice h ticks (VADManager_new cfg) tr)) \<subseteq>
        set (List.map_filter (\<lambda>t. processAudioFrame (startNow h) t ?m) ticks)"
    using tryBlock_frames_prefix [of h ticks cfg tr]
    by (simp add: frames_tryBlock set_mono_prefix)
  with assms obtain t where "processAudioFrame (startNow h) t ?m = Some f"
    by (auto simp: map_filter_def)
  from frame_length_processAudioFrame [OF this] acquire_analyser [of h cfg]
  show ?thesis by (auto simp: frequencyBinCount_def)
qed

lemma run_startTime:
  "startTime (manager (recordAndDetectVoice h ticks m tr)) = startTime m"
proof -
  have tb: "startTime (fst (snd (snd (tryBlock h ticks m tr)))) = startTime m"
    using frameLoop_startTime [of "startNow h" ticks "snd (acquire h m)" tr]
      acquire_startTime [of h m]
    by (cases "acquire h m") (simp add: tryBlock_def split: option.splits)
  obtain x fs m1 tr1 where t: "tryBlock h ticks m tr = (x, fs, m1, tr1)"
    by (cases "tryBlock h ticks m tr")
  with tb have "startTime m1 = startTime m" by simp
  then show ?thesis
    using stopRecording_startTime [of m1 tr1] t
    by (cases "stopRecording m1 tr1") (simp add: recordAndDetectVoice_def)
qed

subsection \<open>Timestamps, lengths and slices\<close>

lemma sorted_timestamps:
  assumes "sorted (map now ticks)"
  shows "sorted (map timestamp (List.map_filter (\<lambda>t. processAudioFrame st t m) ticks))"
  using assms
proof (induction ticks)
  case Nil
  show ?case by simp
next
  case (Cons t ts)
  have tail: "sorted (map timestamp (List.map_filter (\<lambda>t. processAudioFrame st t m) ts))"
    using Cons by simp
  show ?case
  proof (cases "processAudioFrame st t m")
    case None
    then show ?thesis using tail by simp
  next
    case (Some f)
    have "timestamp f \<le> timestamp g"
      if "g \<in> set (List.map_filter (\<lambda>t. processAudioFrame st t m) ts)" for g
    proof -
      from that obtain u where u: "u \<in> set ts" "processAudioFrame st u m = Some g"
        by (auto simp: map_filter_def)
      have "now t \<le> now u" using Cons.prems u(1) by auto
      then show ?thesis
        using timestamp_processAudioFrame [OF Some] timestamp_processAudioFrame [OF u(2)]
        by simp
    qed
    then show ?thesis using Some tail by auto
  qed
qed

lemma sorted_prefix:
  "prefix xs ys \<Longrightarrow> sorted (map f ys) \<Longrightarrow> sorted (map f xs)"
  by (auto simp: prefix_def sorted_append)

lemma length_map_filter:
  "length (List.map_filter f xs) = length (filter (\<lambda>x. f x \<noteq> None) xs)"
  by (simp add: map_filter_def)

lemma slice_split:
  assumes "16 \<le> length buffer"
  shows "slice buffer 0 (int (length buffer) - 16) = take (length buffer - 16) buffer"
    and "slice buffer (int (length buffer) - 16) (int (length buffer)) =
           drop (length buffer - 16) buffer"
  using assms
  by (simp_all add: slice_def relativeIndex_def Let_def nat_diff_distrib' min_def)

section \<open>The claims\<close>

subsection \<open>C1: release on every exit path\<close>

text \<open>
  C1 requires that every sequence that ends has released exactly once. The recording
  runs on a new object; during its first iteration \<open>stopRecording\<close> is called from
  outside, stops the track, calls \<open>close()\<close> on context 7 and waits for it; the timer
  of the loop fires first, the loop sees the flag cleared and ends, and the \<open>finally\<close>
  block calls \<open>stopRecording\<close> again, which still finds the context and closes it a
  second time. The sequence ends rejected with the host's \<open>InvalidStateError\<close>, with
  \<open>close()\<close> called twice and the context, the analyser and the classifier still held.
\<close>

theorem pending_stop_closes_twice:
  "outcome (recordAndDetectVoice host0 [pendingStop] (VADManager_new defaultConfig) []) =
     Failed (HostError ''InvalidStateError'') \<and>
   calls (recordAndDetectVoice host0 [pendingStop] (VADManager_new defaultConfig) []) =
     [TrackStop 1, ContextClose 7, ContextClose 7] \<and>
   audioContext
     (manager (recordAndDetectVoice host0 [pendingStop] (VADManager_new defaultConfig) [])) =
     Some 7 \<and>
   analyser
     (manager (recordAndDetectVoice host0 [pendingStop] (VADManager_new defaultConfig) [])) \<noteq>
     None \<and>
   vad (manager (recordAndDetectVoice host0 [pendingStop] (VADManager_new defaultConfig) [])) \<noteq>
     None"
  by (simp add: run_defs host0_def pendingStop_def tickAt_def defaultConfig_def)

text \<open>
  Apart from this overlap the release is as required for a sequence run on a new object.
  When every outside call of
  \<open>stopRecording\<close> has completed before the loop goes on, a sequence that ends (by
  such a call, the consumer's \<open>return()\<close> or \<open>throw()\<close>, or a failure of any step of
  acquisition) leaves the object as the constructor built it and has made exactly the
  release calls owed for what it had acquired: \<open>stop()\<close> once on each track of the
  acquired stream, then \<open>close()\<close> once on the acquired context.
\<close>

lemma release_when_stops_complete:
  assumes "freshContext h tr"
    and "\<forall>t\<in>set ticks. \<not> closePending t"
    and "outcome (recordAndDetectVoice h ticks (VADManager_new cfg) tr) \<noteq> Suspended"
  shows "manager (recordAndDetectVoice h ticks (VADManager_new cfg) tr) = VADManager_new cfg \<and>
         calls (recordAndDetectVoice h ticks (VADManager_new cfg) tr) =
           tr @ owedRelease (snd (acquire h (VADManager_new cfg)))"
  using assms(3) run_shape [OF assms(1,2), of cfg]
  by (simp split: if_splits)

subsection \<open>C2: construction\<close>

text \<open>
  C2, as the code has it. Construction never rejects: whatever the three numbers are, the
  result is the new object, holding the configuration unchanged and no host resource.
  Only the static type \<open>VADConfig\<close> keeps other values out.
\<close>

theorem construct_never_rejects:
  "construct (Some cfg) = Inr (VADManager_new cfg) \<and>
   construct None = Inr (VADManager_new defaultConfig) \<and>
   config (VADManager_new cfg) = cfg \<and>
   mediaStream (VADManager_new cfg) = None \<and>
   audioContext (VADManager_new cfg) = None \<and>
   analyser (VADManager_new cfg) = None \<and>
   vad (VADManager_new cfg) = None \<and>
   isRecording (VADManager_new cfg) = False"
  by (simp add: construct_def VADManager_new_def)

text \<open>
  C2 as stated fails: a configuration outside all three allowed sets, for which the frame
  length is not even a whole number of samples, is accepted.
\<close>

theorem construct_invalid_config_accepted:
  "\<not> spec_valid_config \<lparr>aggressiveness = 7, frameDuration = 25, sampleRate = 44100\<rparr> \<and>
   construct (Some \<lparr>aggressiveness = 7, frameDuration = 25, sampleRate = 44100\<rparr>) =
     Inr (VADManager_new \<lparr>aggressiveness = 7, frameDuration = 25, sampleRate = 44100\<rparr>)"
  by (simp add: spec_valid_config_def construct_def)

subsection \<open>C3: frames and delivered samples\<close>

text \<open>
  C3, as the code has it. There is no segmentation of delivered samples. Every frame of
  the output has exactly 1024 values, the analyser's bin count, whatever the configured
  frame duration and sample rate are; the samples the microphone delivered have no
  influence on the run at all; and when acquisition succeeds, the consumer keeps pulling
  and nobody stops the recording before the last iteration, the output has one frame for
  each iteration whose classification did not throw.
\<close>

theorem one_frame_per_iteration:
  "(\<forall>f\<in>set (frames (recordAndDetectVoice h ticks (VADManager_new cfg) tr)).
      length (frame f) = 1024) \<and>
   recordAndDetectVoice h (map (\<lambda>t. t\<lparr>samples := g t\<rparr>) ticks) (VADManager_new cfg) tr =
     recordAndDetectVoice h ticks (VADManager_new cfg) tr \<and>
   (fst (acquire h (VADManager_new cfg)) = None \<and> freshContext h tr \<and>
    (\<forall>t\<in>set ticks. consumer t = Next) \<and> (\<forall>t\<in>set (butlast ticks). \<not> stopCalled t) \<longrightarrow>
    length (frames (recordAndDetectVoice h ticks (VADManager_new cfg) tr)) =
      length (filter (\<lambda>t. isSpeech t (snapshot t) (sampleRate cfg) \<noteq> None) ticks))"
  using run_frame_lengths [of _ h ticks cfg tr] run_samples [of h g ticks "VADManager_new cfg" tr]
    run_all_pulled [of h cfg tr ticks]
  by (auto simp: length_map_filter)

theorem one_frame_per_iteration_witness:
  "length (frames (recordAndDetectVoice host0 chunks3 (VADManager_new defaultConfig) [])) = 3 \<and>
   map (\<lambda>f. length (frame f))
     (frames (recordAndDetectVoice host0 chunks3 (VADManager_new defaultConfig) [])) =
     [1024, 1024, 1024]"
proof -
  have acq: "fst (acquire host0 (VADManager_new defaultConfig)) = None"
    by (simp add: acquire_def initializeVAD_def host0_def)
  have fresh: "freshContext host0 []"
    by (simp add: freshContext_def host0_def)
  have pulls: "\<forall>t\<in>set chunks3. consumer t = Next"
    by (simp add: chunks3_def tickAt_def)
  have nostop: "\<forall>t\<in>set (butlast chunks3). \<not> stopCalled t"
    by (simp add: chunks3_def tickAt_def)
  have "length (frames (recordAndDetectVoice host0 chunks3 (VADManager_new defaultConfig) [])) =
      length (filter (\<lambda>t. isSpeech t (snapshot t) (sampleRate defaultConfig) \<noteq> None) chunks3)"
    using one_frame_per_iteration [of host0 chunks3 defaultConfig "[]" samples]
      acq fresh pulls nostop
    by blast
  moreover have "length (filter (\<lambda>t. isSpeech t (snapshot t) (sampleRate defaultConfig) \<noteq> None)
      chunks3) = 3"
    by (simp add: chunks3_def tickAt_def del: not_None_eq)
  ultimately have n:
    "length (frames (recordAndDetectVoice host0 chunks3 (VADManager_new defaultConfig) [])) = 3"
    by simp
  have "\<forall>f\<in>set (frames (recordAndDetectVoice host0 chunks3 (VADManager_new defaultConfig) [])).
      length (frame f) = 1024"
    using one_frame_per_iteration [of host0 chunks3 defaultConfig "[]" samples] by blast
  then have "map (\<lambda>f. length (frame f))
      (frames (recordAndDetectVoice host0 chunks3 (VADManager_new defaultConfig) [])) =
      replicate
        (length (frames (recordAndDetectVoice host0 chunks3 (VADManager_new defaultConfig) [])))
        1024"
    by (simp add: map_replicate_const [symmetric] cong: map_cong)
  with n show ?thesis by (simp add: numeral_3_eq_3)
qed

text \<open>
  C3 as stated fails on its own scenario: with 30 ms at 16000 Hz the frame length of the
  specification is 480; three iterations in which 200 samples each were delivered, 600 in
  all, should give \<open>600 div 480 = 1\<close> frame, and the sequence yields 3.
\<close>

theorem three_chunks_three_frames:
  "samplesDelivered chunks3 = 600 \<and>
   spec_frameLengthSamples defaultConfig = 480 \<and>
   samplesDelivered chunks3 div spec_frameLengthSamples defaultConfig = 1 \<and>
   length (frames (recordAndDetectVoice host0 chunks3 (VADManager_new defaultConfig) [])) = 3"
  by (simp add: samplesDelivered_def chunks3_def tickAt_def spec_frameLengthSamples_def
      defaultConfig_def run_defs host0_def)

subsection \<open>C4: a classifier failure drops one frame\<close>



subsection \<open>C5: stopRecording twice\<close>

text \<open>
  C5. A second \<open>stopRecording\<close> right after one that completed changes neither the
  object nor the host (no track is stopped and no context closed again) and completes
  without an error.
\<close>

theorem stopRecording_idempotent:
  assumes "stopRecording m tr = (None, m1, tr1)"
  shows "stopRecording m1 tr1 = (None, m1, tr1)"
proof -
  obtain m0 tr0 where st: "stopTracks (m\<lparr>isRecording := False\<rparr>) tr = (m0, tr0)"
    by (cases "stopTracks (m\<lparr>isRecording := False\<rparr>) tr")
  have ms: "mediaStream m0 = None" and ir: "isRecording m0 = False"
    using stopTracks_fields [of "m\<lparr>isRecording := False\<rparr>" tr] st by simp_all
  from assms st have m1:
    "mediaStream m1 = None \<and> audioContext m1 = None \<and> analyser m1 = None \<and>
     vad m1 = None \<and> isRecording m1 = False"
    using ms ir by (auto simp: stopRecording_unfold split: option.splits if_splits)
  then show ?thesis
    by (simp add: stopRecording_unfold stopTracks_def)
qed

theorem stopRecording_idempotent_witness:
  "stopRecording
     (VADManager_new defaultConfig
        \<lparr>mediaStream := Some (MediaStream [1, 2]), audioContext := Some 7,
         isRecording := True\<rparr>) [] =
     (None, VADManager_new defaultConfig, [TrackStop 1, TrackStop 2, ContextClose 7]) \<and>
   stopRecording (VADManager_new defaultConfig) [TrackStop 1, TrackStop 2, ContextClose 7] =
     (None, VADManager_new defaultConfig, [TrackStop 1, TrackStop 2, ContextClose 7])"
proof -
  have first:
    "stopRecording
       (VADManager_new defaultConfig
          \<lparr>mediaStream := Some (MediaStream [1, 2]), audioContext := Some 7,
           isRecording := True\<rparr>) [] =
       (None, VADManager_new defaultConfig, [TrackStop 1, TrackStop 2, ContextClose 7])"
    by (simp add: stopRecording_unfold stopTracks_def VADManager_new_def)
  from first stopRecording_idempotent [OF first] show ?thesis by simp
qed

subsection \<open>C6: acquisition failure\<close>

text \<open>
  C6. When \<open>getUserMedia\<close> rejects with \<open>e\<close> (no device, or permission denied), the
  sequence rejects with the SDK's error for a failed start, code \<open>RECORDING_ERROR\<close>,
  carrying \<open>e\<close>; it yields no frame; nothing was held, so no release call is made; the
  object is as new; and the recording-state accessor reports not recording with
  duration 0. The same holds when any later step of acquisition throws
  (\<open>new AudioContext\<close>, \<open>createAnalyser\<close>, \<open>createMediaStreamSource\<close>, \<open>connect\<close>, or
  the set-up of the classifier before them): the sequence rejects with the
  \<open>RECORDING_ERROR\<close> carrying what was thrown, and what had been acquired by then is
  released, \<open>stop()\<close> on each track of the stream and \<open>close()\<close> on the context if
  there is one, before the object is as new again. The recording flag is set only after
  the last step, so the accessor never reports a recording in between.
\<close>

theorem acquisition_failure_released:
  "(loadVAD h = None \<and> getUserMedia h = Inl e \<longrightarrow>
      outcome (recordAndDetectVoice h ticks (VADManager_new cfg) tr) =
        Failed (SolaceSDKError ''Failed to start voice recording'' ''RECORDING_ERROR'' e) \<and>
      frames (recordAndDetectVoice h ticks (VADManager_new cfg) tr) = [] \<and>
      manager (recordAndDetectVoice h ticks (VADManager_new cfg) tr) = VADManager_new cfg \<and>
      calls (recordAndDetectVoice h ticks (VADManager_new cfg) tr) = tr \<and>
      getRecordingState (manager (recordAndDetectVoice h ticks (VADManager_new cfg) tr))
          now1 now2 =
        \<lparr>rs_isRecording = False, rs_duration = 0\<rparr>) \<and>
   (fst (acquire h (VADManager_new cfg)) = Some e0 \<and> freshContext h tr \<longrightarrow>
      outcome (recordAndDetectVoice h ticks (VADManager_new cfg) tr) =
        Failed (SolaceSDKError ''Failed to start voice recording'' ''RECORDING_ERROR'' e0) \<and>
      frames (recordAndDetectVoice h ticks (VADManager_new cfg) tr) = [] \<and>
      manager (recordAndDetectVoice h ticks (VADManager_new cfg) tr) = VADManager_new cfg \<and>
      calls (recordAndDetectVoice h ticks (VADManager_new cfg) tr) =
        tr @
        (if loadVAD h = None
         then (case getUserMedia h of
                 Inl x \<Rightarrow> []
               | Inr s \<Rightarrow>
                   map TrackStop (getTracks s) @
                   (case newAudioContext h of Inl x \<Rightarrow> [] | Inr c \<Rightarrow> [ContextClose c]))
         else []) \<and>
      getRecordingState (manager (recordAndDetectVoice h ticks (VADManager_new cfg) tr))
          now1 now2 =
        \<lparr>rs_isRecording = False, rs_duration = 0\<rparr>) \<and>
   isRecording (snd (acquire h (VADManager_new cfg))) =
     (fst (acquire h (VADManager_new cfg)) = None)"
proof -
  have a: "loadVAD h = None \<and> getUserMedia h = Inl e \<longrightarrow>
      outcome (recordAndDetectVoice h ticks (VADManager_new cfg) tr) =
        Failed (SolaceSDKError ''Failed to start voice recording'' ''RECORDING_ERROR'' e) \<and>
      frames (recordAndDetectVoice h ticks (VADManager_new cfg) tr) = [] \<and>
      manager (recordAndDetectVoice h ticks (VADManager_new cfg) tr) = VADManager_new cfg \<and>
      calls (recordAndDetectVoice h ticks (VADManager_new cfg) tr) = tr \<and>
      getRecordingState (manager (recordAndDetectVoice h ticks (VADManager_new cfg) tr))
          now1 now2 =
        \<lparr>rs_isRecording = False, rs_duration = 0\<rparr>"
    by (simp add: run_defs recordingError_def getRecordingState_def)
  have b: "fst (acquire h (VADManager_new cfg)) = Some e0 \<and> freshContext h tr \<longrightarrow>
      outcome (recordAndDetectVoice h ticks (VADManager_new cfg) tr) =
        Failed (SolaceSDKError ''Failed to start voice recording'' ''RECORDING_ERROR'' e0) \<and>
      frames (recordAndDetectVoice h ticks (VADManager_new cfg) tr) = [] \<and>
      manager (recordAndDetectVoice h ticks (VADManager_new cfg) tr) = VADManager_new cfg \<and>
      calls (recordAndDetectVoice h ticks (VADManager_new cfg) tr) =
        tr @
        (if loadVAD h = None
         then (case getUserMedia h of
                 Inl x \<Rightarrow> []
               | Inr s \<Rightarrow>
                   map TrackStop (getTracks s) @
                   (case newAudioContext h of Inl x \<Rightarrow> [] | Inr c \<Rightarrow> [ContextClose c]))
         else []) \<and>
      getRecordingState (manager (recordAndDetectVoice h ticks (VADManager_new cfg) tr))
          now1 now2 =
        \<lparr>rs_isRecording = False, rs_duration = 0\<rparr>"
  proof
    assume "fst (acquire h (VADManager_new cfg)) = Some e0 \<and> freshContext h tr"
    then have failed: "fst (acquire h (VADManager_new cfg)) = Some e0" and "freshContext h tr"
      by simp_all
    from run_acquisition_failed [OF this, of ticks] owedRelease_acquire [of h cfg]
    show "outcome (recordAndDetectVoice h ticks (VADManager_new cfg) tr) =
        Failed (SolaceSDKError ''Failed to start voice recording'' ''RECORDING_ERROR'' e0) \<and>
      frames (recordAndDetectVoice h ticks (VADManager_new cfg) tr) = [] \<and>
      manager (recordAndDetectVoice h ticks (VADManager_new cfg) tr) = VADManager_new cfg \<and>
      calls (recordAndDetectVoice h ticks (VADManager_new cfg) tr) =
        tr @
        (if loadVAD h = None
         then (case getUserMedia h of
                 Inl x \<Rightarrow> []
               | Inr s \<Rightarrow>
                   map TrackStop (getTracks s) @
                   (case newAudioContext h of Inl x \<Rightarrow> [] | Inr c \<Rightarrow> [ContextClose c]))
         else []) \<and>
      getRecordingState (manager (recordAndDetectVoice h ticks (VADManager_new cfg) tr))
          now1 now2 =
        \<lparr>rs_isRecording = False, rs_duration = 0\<rparr>"
      by (simp add: recordingError_def getRecordingState_def VADManager_new_def)
  qed
  have c: "isRecording (snd (acquire h (VADManager_new cfg))) =
     (fst (acquire h (VADManager_new cfg)) = None)"
    by (simp add: acquire_def initializeVAD_def VADManager_new_def Let_def
        split: option.splits sum.splits)
  show ?thesis
    by (rule conjI [OF a conjI [OF b c]])
qed

text \<open>
  Permission denied: nothing was held and nothing is released. The connection of the
  source to the analyser throwing: the stream and the context were held; the track is
  stopped and the context closed.
\<close>

theorem acquisition_failure_released_witness:
  "outcome
     (recordAndDetectVoice (host0\<lparr>getUserMedia := Inl (HostError ''NotAllowedError'')\<rparr>)
        stream10 (VADManager_new defaultConfig) []) =
     Failed (SolaceSDKError ''Failed to start voice recording'' ''RECORDING_ERROR''
               (HostError ''NotAllowedError'')) \<and>
   calls
     (recordAndDetectVoice (host0\<lparr>getUserMedia := Inl (HostError ''NotAllowedError'')\<rparr>)
        stream10 (VADManager_new defaultConfig) []) = [] \<and>
   getRecordingState
     (manager
        (recordAndDetectVoice (host0\<lparr>getUserMedia := Inl (HostError ''NotAllowedError'')\<rparr>)
           stream10 (VADManager_new defaultConfig) [])) 2000 2000 =
     \<lparr>rs_isRecording = False, rs_duration = 0\<rparr> \<and>
   outcome
     (recordAndDetectVoice (host0\<lparr>connectSource := Some (HostError ''InvalidAccessError'')\<rparr>)
        stream10 (VADManager_new defaultConfig) []) =
     Failed (SolaceSDKError ''Failed to start voice recording'' ''RECORDING_ERROR''
               (HostError ''InvalidAccessError'')) \<and>
   calls
     (recordAndDetectVoice (host0\<lparr>connectSource := Some (HostError ''InvalidAccessError'')\<rparr>)
        stream10 (VADManager_new defaultConfig) []) = [TrackStop 1, ContextClose 7] \<and>
   manager
     (recordAndDetectVoice (host0\<lparr>connectSource := Some (HostError ''InvalidAccessError'')\<rparr>)
        stream10 (VADManager_new defaultConfig) []) = VADManager_new defaultConfig \<and>
   getRecordingState
     (manager
        (recordAndDetectVoice (host0\<lparr>connectSource := Some (HostError ''InvalidAccessError'')\<rparr>)
           stream10 (VADManager_new defaultConfig) [])) 2000 2000 =
     \<lparr>rs_isRecording = False, rs_duration = 0\<rparr>"
proof -
  let ?denied = "host0\<lparr>getUserMedia := Inl (HostError ''NotAllowedError'')\<rparr>"
  let ?unconnected = "host0\<lparr>connectSource := Some (HostError ''InvalidAccessError'')\<rparr>"
  have a: "loadVAD ?denied = None \<and> getUserMedia ?denied = Inl (HostError ''NotAllowedError'')"
    by (simp add: host0_def)
  have b: "fst (acquire ?unconnected (VADManager_new defaultConfig)) =
             Some (HostError ''InvalidAccessError'') \<and>
           freshContext ?unconnected []"
    by (simp add: acquire_def initializeVAD_def freshContext_def host0_def)
  from acquisition_failure_released
         [where h = ?denied and e = "HostError ''NotAllowedError''" and ticks = stream10 and
            cfg = defaultConfig and tr = "[]" and ?now1.0 = 2000 and ?now2.0 = 2000] a
  have denied:
    "outcome (recordAndDetectVoice ?denied stream10 (VADManager_new defaultConfig) []) =
       Failed (SolaceSDKError ''Failed to start voice recording'' ''RECORDING_ERROR''
                 (HostError ''NotAllowedError'')) \<and>
     calls (recordAndDetectVoice ?denied stream10 (VADManager_new defaultConfig) []) = [] \<and>
     getRecordingState
       (manager (recordAndDetectVoice ?denied stream10 (VADManager_new defaultConfig) []))
       2000 2000 = \<lparr>rs_isRecording = False, rs_duration = 0\<rparr>"
    by blast
  from acquisition_failure_released
         [where h = ?unconnected and ?e0.0 = "HostError ''InvalidAccessError''" and
            ticks = stream10 and cfg = defaultConfig and tr = "[]" and
            ?now1.0 = 2000 and ?now2.0 = 2000] b
  have unconnected:
    "outcome (recordAndDetectVoice ?unconnected stream10 (VADManager_new defaultConfig) []) =
       Failed (SolaceSDKError ''Failed to start voice recording'' ''RECORDING_ERROR''
                 (HostError ''InvalidAccessError'')) \<and>
     calls (recordAndDetectVoice ?unconnected stream10 (VADManager_new defaultConfig) []) =
       [TrackStop 1, ContextClose 7] \<and>
     manager (recordAndDetectVoice ?unconnected stream10 (VADManager_new defaultConfig) []) =
       VADManager_new defaultConfig \<and>
     getRecordingState
       (manager (recordAndDetectVoice ?unconnected stream10 (VADManager_new defaultConfig) []))
       2000 2000 = \<lparr>rs_isRecording = False, rs_duration = 0\<rparr>"
    by (simp add: host0_def getRecordingState_def VADManager_new_def)
  from denied unconnected show ?thesis
    by (simp add: getRecordingState_def VADManager_new_def)
qed

subsection \<open>C7: order of the output\<close>

text \<open>
  C7, as the code has it. A timestamp is the difference of two readings of the wall
  clock, so the timestamps are non-decreasing in emission order whenever the readings
  of \<open>Date.now()\<close> over the iterations are. And in every run, whatever the clock
  does, the output is an initial part of the sequence of frames the iterations produce,
  in the order of the iterations: no frame is delivered out of order or twice.
\<close>

theorem timestamps_sorted:
  "(sorted (map now ticks) \<longrightarrow>
      sorted (map timestamp (frames (recordAndDetectVoice h ticks (VADManager_new cfg) tr)))) \<and>
   prefix (frames (recordAndDetectVoice h ticks (VADManager_new cfg) tr))
     (List.map_filter
        (\<lambda>t. processAudioFrame (startNow h) t (snd (acquire h (VADManager_new cfg))))
        ticks)"
proof -
  have order: "prefix (frames (recordAndDetectVoice h ticks (VADManager_new cfg) tr))
     (List.map_filter
        (\<lambda>t. processAudioFrame (startNow h) t (snd (acquire h (VADManager_new cfg))))
        ticks)"
    using tryBlock_frames_prefix [of h ticks cfg tr] by (simp add: frames_tryBlock)
  have "sorted (map timestamp (frames (recordAndDetectVoice h ticks (VADManager_new cfg) tr)))"
    if "sorted (map now ticks)"
    by (rule sorted_prefix [OF order sorted_timestamps [OF that]])
  with order show ?thesis by simp
qed

text \<open>
  The ten iterations with an advancing clock give non-decreasing timestamps; and the
  order of delivery holds also in the run in which the clock is set back.
\<close>

theorem timestamps_sorted_witness:
  "sorted (map timestamp
     (frames (recordAndDetectVoice host0 stream10 (VADManager_new defaultConfig) []))) \<and>
   prefix
     (frames (recordAndDetectVoice host0 [tickAt 1050 (Some True), tickAt 1020 (Some True)]
        (VADManager_new defaultConfig) []))
     (List.map_filter
        (\<lambda>t. processAudioFrame (startNow host0) t
              (snd (acquire host0 (VADManager_new defaultConfig))))
        [tickAt 1050 (Some True), tickAt 1020 (Some True)])"
proof -
  have "sorted (map now stream10)"
    by (simp add: stream10_def tickAt_def)
  with timestamps_sorted [of stream10 host0 defaultConfig "[]"]
    timestamps_sorted [of "[tickAt 1050 (Some True), tickAt 1020 (Some True)]" host0
      defaultConfig "[]"]
  show ?thesis by blast
qed

text \<open>
  C7 as stated fails: when the wall clock is set back between two iterations (it reads
  1050, then 1020), the second frame carries the smaller timestamp.
\<close>

theorem timestamps_follow_clock_back:
  "map timestamp
     (frames (recordAndDetectVoice host0 [tickAt 1050 (Some True), tickAt 1020 (Some True)]
        (VADManager_new defaultConfig) [])) = [50, 20] \<and>
   \<not> sorted (map timestamp
     (frames (recordAndDetectVoice host0 [tickAt 1050 (Some True), tickAt 1020 (Some True)]
        (VADManager_new defaultConfig) [])))"
  by (simp add: run_defs host0_def tickAt_def defaultConfig_def)

subsection \<open>C8: the duration field\<close>

text \<open>
  The field \<open>startTime\<close> is read by the accessor and never written: the sequence keeps
  its start in a local constant of the same name. So for every run on a new object the
  duration reported while recording is the difference of the two clock readings the
  accessor itself takes, not the time since the recording started.
\<close>

lemma duration_never_measures_elapsed:
  "getRecordingState (manager (recordAndDetectVoice h ticks (VADManager_new cfg) tr)) now1 now2 =
     \<lparr>rs_isRecording = isRecording (manager (recordAndDetectVoice h ticks (VADManager_new cfg) tr)),
      rs_duration =
        (if isRecording (manager (recordAndDetectVoice h ticks (VADManager_new cfg) tr))
         then now1 - now2 else 0)\<rparr>"
  using run_startTime [of h ticks "VADManager_new cfg" tr]
  by (simp add: getRecordingState_def VADManager_new_def)

text \<open>
  C8. The recording started when the clock read 1000 and is still running; the accessor
  is called when the clock reads 6000. C8 requires a duration of 5000; the code reports 0.
\<close>

theorem duration_while_recording:
  "getRecordingState
     (manager (recordAndDetectVoice host0 [tickAt 1030 (Some True)]
        (VADManager_new defaultConfig) [])) 6000 6000 =
     \<lparr>rs_isRecording = True, rs_duration = 0\<rparr>"
  by (simp add: run_defs host0_def tickAt_def defaultConfig_def getRecordingState_def)

subsection \<open>C9: what the classifier is given\<close>

text \<open>
  C9, as the code has it. The classifier is given the analyser's frequency bins, each
  byte \<open>b\<close> taken to the 16-bit value \<open>round ((b - 128) / 128 * 32767)\<close>, which always
  fits; the samples the microphone delivered are never read. On the analyser the
  sequence sets up, the argument of the classifier, and the frame that is yielded, is
  the conversion of the 1024 bins.
\<close>

theorem classifier_input_is_converted_bins:
  "sint (pcmSample b) = ((uint b - 128) * 32767 + 64) div 128 \<and>
   processAudioFrame st (t\<lparr>samples := xs\<rparr>) m = processAudioFrame st t m \<and>
   (fst (acquire h (VADManager_new cfg)) = None \<longrightarrow>
    processAudioFrame st t (snd (acquire h (VADManager_new cfg))) =
      map_option
        (\<lambda>hv. \<lparr>frame = map pcmSample (getByteFrequencyData (bins t) 1024),
               timestamp = now t - st, hasVoice = hv\<rparr>)
        (isSpeech t (map pcmSample (getByteFrequencyData (bins t) 1024)) (sampleRate cfg)))"
  using processAudioFrame_running [of h cfg st t] pcmSample_no_wrap [of b]
  by (simp add: snapshot_def convertToPCM_def)

theorem classifier_input_is_converted_bins_witness:
  "processAudioFrame 1000
     \<lparr>bins = replicate 1024 0, samples = replicate 480 1000,
      isSpeech = (\<lambda>pcm sr. Some (pcm = replicate 1024 (- 32767))), now = 1030,
      consumer = Next, stopCalled = False, closePending = False\<rparr>
     (snd (acquire host0 (VADManager_new defaultConfig))) =
     Some \<lparr>frame = replicate 1024 (- 32767), timestamp = 30, hasVoice = True\<rparr>"
proof -
  have acq: "fst (acquire host0 (VADManager_new defaultConfig)) = None"
    by (simp add: acquire_def initializeVAD_def host0_def)
  from classifier_input_is_converted_bins
         [where h = host0 and cfg = defaultConfig and st = 1000 and
            t = "\<lparr>bins = replicate 1024 0, samples = replicate 480 1000,
               isSpeech = (\<lambda>pcm sr. Some (pcm = replicate 1024 (- 32767))), now = 1030,
               consumer = Next, stopCalled = False, closePending = False\<rparr>"] acq
  show ?thesis
    by (simp add: getByteFrequencyData_def pcmSample_0)
qed

text \<open>
  C9 as stated fails: the microphone delivered 480 samples of value 1000 while the
  spectrum was silent; the classifier, asked whether it was handed those samples,
  answers no, and the frame holds 1024 times the conversion of bin 0.
\<close>

theorem classifier_fed_frequency_bins:
  "samples micTick = replicate 480 1000 \<and>
   frames (recordAndDetectVoice host0 [micTick] (VADManager_new defaultConfig) []) =
     [\<lparr>frame = replicate 1024 (- 32767), timestamp = 30, hasVoice = False\<rparr>]"
  by (simp add: micTick_def run_defs host0_def defaultConfig_def getByteFrequencyData_def
      convertToPCM_def pcmSample_0)

subsection \<open>C10: the envelope holds no key\<close>

text \<open>
  C10. For every input string: when the platform generates a key, encrypts and exports
  without failing, \<open>encryptBlob\<close> returns an envelope whose three fields are
  \<open>btoa\<close> of the bytes of the 12-byte random vector, \<open>btoa\<close> of the bytes of the cipher
  output without its last 16 bytes, and \<open>btoa\<close> of those last 16 bytes, each encoded on
  its own. The key was generated inside the call. Nothing of it is in the result: the
  envelope is the same whatever bytes the export of the key yields, and the same for any
  other key under which the cipher gives the same output, so the key enters the result
  only through the cipher. An envelope is returned in no other case, and the function
  returns no state in which the key or its export could be kept.
\<close>

theorem encryptBlob_envelope_without_key:
  "(generateKey h = Inr key \<and>
    aesGcmEncrypt h key (getRandomValues h 12) (textEncode h d) = Inr enc \<and>
    exportKey h key = Inr kb \<longrightarrow>
      encryptBlob h d =
        Inr \<lparr>iv = btoa h (map (\<lambda>b. char_of (unat b)) (getRandomValues h 12)),
             ciphertext =
               btoa h (map (\<lambda>b. char_of (unat b)) (slice enc 0 (int (length enc) - 16))),
             tag =
               btoa h (map (\<lambda>b. char_of (unat b))
                 (slice enc (int (length enc) - 16) (int (length enc))))\<rparr> \<and>
      (16 \<le> length enc \<longrightarrow>
         slice enc 0 (int (length enc) - 16) = take (length enc - 16) enc \<and>
         slice enc (int (length enc) - 16) (int (length enc)) = drop (length enc - 16) enc) \<and>
      encryptBlob (h\<lparr>exportKey := \<lambda>k. Inr (raw k)\<rparr>) d = encryptBlob h d \<and>
      (\<forall>key'. aesGcmEncrypt h key' (getRandomValues h 12) (textEncode h d) = Inr enc \<longrightarrow>
         encryptBlob (h\<lparr>generateKey := Inr key', exportKey := \<lambda>k. Inr (raw k)\<rparr>) d =
           encryptBlob h d)) \<and>
   (encryptBlob h d = Inr env \<longrightarrow>
      (\<exists>key0 enc0 kb0.
         generateKey h = Inr key0 \<and>
         aesGcmEncrypt h key0 (getRandomValues h 12) (textEncode h d) = Inr enc0 \<and>
         exportKey h key0 = Inr kb0))"
  by (auto simp: encryptBlob_def generateKey_wrapped_def exportKey_wrapped_def Let_def
      IV_LENGTH_def arrayBufferToBase64_def slice_split
      split: sum.splits)

text \<open>
  Two inputs on the stand-in platform: each gets its envelope, and the envelope does not
  change when the export of the key yields other bytes.
\<close>

theorem encryptBlob_envelope_without_key_witness:
  "encryptBlob toyCrypto ''hi'' =
     Inr \<lparr>iv = map (\<lambda>b. char_of (unat b)) (replicate 12 (7 :: byte)),
          ciphertext = map (\<lambda>b. char_of (unat b)) [104, 104 :: byte],
          tag = map (\<lambda>b. char_of (unat b)) (replicate 16 (1 :: byte))\<rparr> \<and>
   encryptBlob toyCrypto ''hello'' =
     Inr \<lparr>iv = map (\<lambda>b. char_of (unat b)) (replicate 12 (7 :: byte)),
          ciphertext = map (\<lambda>b. char_of (unat b)) [104, 104, 104, 104, 104 :: byte],
          tag = map (\<lambda>b. char_of (unat b)) (replicate 16 (1 :: byte))\<rparr> \<and>
   encryptBlob (toyCrypto\<lparr>exportKey := \<lambda>k. Inr []\<rparr>) ''hi'' = encryptBlob toyCrypto ''hi''"
proof -
  have hi: "generateKey toyCrypto = Inr 42 \<and>
      aesGcmEncrypt toyCrypto 42 (getRandomValues toyCrypto 12) (textEncode toyCrypto ''hi'') =
        Inr ([104, 104] @ replicate 16 1) \<and>
      exportKey toyCrypto 42 = Inr [42]"
    by (simp add: toyCrypto_def)
  have hello: "generateKey toyCrypto = Inr 42 \<and>
      aesGcmEncrypt toyCrypto 42 (getRandomValues toyCrypto 12)
          (textEncode toyCrypto ''hello'') =
        Inr ([104, 104, 104, 104, 104] @ replicate 16 1) \<and>
      exportKey toyCrypto 42 = Inr [42]"
    by (simp add: toyCrypto_def)
  have sl: "slice (xs @ replicate 16 1) 0 (int (length (xs @ replicate 16 1)) - 16) = xs"
      "slice (xs @ replicate 16 1) (int (length (xs @ replicate 16 1)) - 16)
         (int (length (xs @ replicate 16 1))) = replicate 16 1" for xs :: "byte list"
    by (simp_all add: slice_def relativeIndex_def Let_def)
  from encryptBlob_envelope_without_key
         [where h = toyCrypto and d = "''hi''" and key = 42 and
            enc = "[104, 104] @ replicate 16 1" and kb = "[42]" and raw = "\<lambda>k. []"] hi
  have a: "encryptBlob toyCrypto ''hi'' =
     Inr \<lparr>iv = map (\<lambda>b. char_of (unat b)) (replicate 12 (7 :: byte)),
          ciphertext = map (\<lambda>b. char_of (unat b)) [104, 104 :: byte],
          tag = map (\<lambda>b. char_of (unat b)) (replicate 16 (1 :: byte))\<rparr> \<and>
     encryptBlob (toyCrypto\<lparr>exportKey := \<lambda>k. Inr []\<rparr>) ''hi'' = encryptBlob toyCrypto ''hi''"
    using sl [of "[104, 104]"] by (simp add: toyCrypto_def)
  from encryptBlob_envelope_without_key
         [where h = toyCrypto and d = "''hello''" and key = 42 and
            enc = "[104, 104, 104, 104, 104] @ replicate 16 1" and kb = "[42]"] hello
  have b: "encryptBlob toyCrypto ''hello'' =
     Inr \<lparr>iv = map (\<lambda>b. char_of (unat b)) (replicate 12 (7 :: byte)),
          ciphertext = map (\<lambda>b. char_of (unat b)) [104, 104, 104, 104, 104 :: byte],
          tag = map (\<lambda>b. char_of (unat b)) (replicate 16 (1 :: byte))\<rparr>"
    using sl [of "[104, 104, 104, 104, 104]"] by (simp add: toyCrypto_def)
  from a b show ?thesis by simp
qed

end
